theory Spec2Isabelle
  imports Main
begin

section \<open>Strings and the library functions the sources call\<close>

text \<open>
  Go strings are byte sequences; \<open>string\<close> (a list of 8-bit characters) models them.
  The functions of this section belong to Go's standard library, not to the
  repository; they are written out from their documented behaviour because the
  sources call them on values the properties below talk about.
\<close>

definition byte :: "char \<Rightarrow> nat" where
  "byte c = of_char c"

definition is_digit :: "char \<Rightarrow> bool" where
  "is_digit c = (48 \<le> byte c \<and> byte c \<le> 57)"

definition is_alnum :: "char \<Rightarrow> bool" where
  "is_alnum c =
     ((97 \<le> byte c \<and> byte c \<le> 122) \<or> (65 \<le> byte c \<and> byte c \<le> 90) \<or> is_digit c)"

text \<open>\<open>strings.Join(elems, sep)\<close>.\<close>

fun Join :: "string list \<Rightarrow> string \<Rightarrow> string" where
  "Join [] sep = []"
| "Join [x] sep = x"
| "Join (x # y # ys) sep = x @ sep @ Join (y # ys) sep"

text \<open>\<open>strings.Contains(s, substr)\<close>, used to state what a body or message contains.\<close>

fun Contains :: "string \<Rightarrow> string \<Rightarrow> bool" where
  "Contains [] sub = (sub = [])"
| "Contains (c # cs) sub = (take (length sub) (c # cs) = sub \<or> Contains cs sub)"

subsection \<open>\<open>base64.StdEncoding.EncodeToString\<close>\<close>

definition encodeStd :: string where
  "encodeStd = ''ABCDEFGHIJKLMNOPQRSTUVWXYZabcdefghijklmnopqrstuvwxyz0123456789+/''"

definition enc64 :: "nat \<Rightarrow> char" where
  "enc64 v = encodeStd ! (v mod 64)"

fun EncodeToString :: "string \<Rightarrow> string" where
  "EncodeToString [] = []"
| "EncodeToString [a] =
     (let v = byte a * 65536
      in [enc64 (v div 262144), enc64 (v div 4096), CHR ''='', CHR ''=''])"
| "EncodeToString [a, b] =
     (let v = byte a * 65536 + byte b * 256
      in [enc64 (v div 262144), enc64 (v div 4096), enc64 (v div 64), CHR ''=''])"
| "EncodeToString (a # b # c # rest) =
     (let v = byte a * 65536 + byte b * 256 + byte c
      in [enc64 (v div 262144), enc64 (v div 4096), enc64 (v div 64), enc64 v]
         @ EncodeToString rest)"

subsection \<open>\<open>url.QueryEscape\<close>\<close>

definition upperhex :: string where
  "upperhex = ''0123456789ABCDEF''"

definition shouldEscape :: "char \<Rightarrow> bool" where
  "shouldEscape c =
     (if is_alnum c then False
      else if c = CHR ''-'' \<or> c = CHR ''_'' \<or> c = CHR ''.'' \<or> c = CHR ''~'' then False
      else True)"

fun QueryEscape :: "string \<Rightarrow> string" where
  "QueryEscape [] = []"
| "QueryEscape (c # cs) =
     (if shouldEscape c then
        (if c = CHR '' '' then CHR ''+'' # QueryEscape cs
         else CHR ''%'' # upperhex ! (byte c div 16) # upperhex ! (byte c mod 16)
              # QueryEscape cs)
      else c # QueryEscape cs)"

subsection \<open>\<open>fmt.Sprintf\<close> called with a format and no operands\<close>

text \<open>
  \<open>Refresh\<close> hands its whole request body to \<open>fmt.Sprintf\<close> as the format
  string, with no further argument. What the formatter then does with a
  \<open>%\<close> is the behaviour of \<open>doPrintf\<close> in Go's \<open>fmt/print.go\<close> for an empty
  operand list: after the \<open>%\<close> come flags, an optional argument index \<open>[n]\<close>, a
  width (digits or \<open>*\<close>), an optional precision, again an optional index, and the
  verb. With no operand no index is ever in range and no verb finds its operand.
\<close>

definition percentBangString :: string where "percentBangString = ''%!''"
definition missingString :: string where "missingString = ''(MISSING)''"
definition badIndexString :: string where "badIndexString = ''(BADINDEX)''"
definition noVerbString :: string where "noVerbString = ''%!(NOVERB)''"
definition badWidthString :: string where "badWidthString = ''%!(BADWIDTH)''"
definition badPrecString :: string where "badPrecString = ''%!(BADPREC)''"

definition tooLarge :: "nat \<Rightarrow> bool" where
  "tooLarge x = (1000000 < x)"

text \<open>
  \<open>parsenum\<close> reads a decimal number from the front of a window of the format and
  returns the number, whether there was one, and what is left of the window. A
  number that grows too large makes it give up and skip to the window's end.
\<close>

fun parsenum_from :: "nat \<Rightarrow> bool \<Rightarrow> string \<Rightarrow> nat \<times> bool \<times> string" where
  "parsenum_from num isnum [] = (num, isnum, [])"
| "parsenum_from num isnum (c # cs) =
     (if is_digit c then
        (if tooLarge num then (0, False, [])
         else parsenum_from (num * 10 + (byte c - 48)) True cs)
      else (num, isnum, c # cs))"

definition parsenum :: "string \<Rightarrow> nat \<times> bool \<times> string" where
  "parsenum s = parsenum_from 0 False s"

text \<open>
  \<open>parseArgNumber\<close> is called on a format that starts with \<open>[\<close>; it returns the
  index, the number of bytes to skip, and whether the bracket held a number.
\<close>

definition parseArgNumber :: "string \<Rightarrow> int \<times> nat \<times> bool" where
  "parseArgNumber fmt =
     (if length fmt < 3 then (0, 1, False)
      else
        (let inside = takeWhile (\<lambda>c. c \<noteq> CHR '']'') (tl fmt)
         in if length inside = length (tl fmt) then (0, 1, False)
            else
              (case parsenum inside of
                 (width, ok, rest) \<Rightarrow>
                   if ok \<and> rest = [] then (int width - 1, length inside + 2, True)
                   else (0, length inside + 2, False))))"

text \<open>
  \<open>argNumber\<close> with \<open>numArgs = 0\<close>: the result is the rest of the format, whether an
  index was found, and the flag \<open>goodArgNum\<close>, which any bracket clears because
  no index is below zero operands.
\<close>

definition argNumber :: "string \<Rightarrow> bool \<Rightarrow> string \<times> bool \<times> bool" where
  "argNumber s good =
     (case s of
        [] \<Rightarrow> (s, False, good)
      | c # cs \<Rightarrow>
          if c = CHR ''['' then
            (case parseArgNumber s of (index, wid, ok) \<Rightarrow> (drop wid s, ok, False))
          else (s, False, good))"

definition is_flag :: "char \<Rightarrow> bool" where
  "is_flag c =
     (c = CHR ''#'' \<or> c = CHR ''0'' \<or> c = CHR ''+'' \<or> c = CHR ''-'' \<or> c = CHR '' '')"

text \<open>The width: \<open>*\<close> asks for an operand that is not there; digits are skipped.\<close>

definition width_part :: "string \<Rightarrow> bool \<Rightarrow> bool \<Rightarrow> string \<times> string \<times> bool \<times> bool" where
  "width_part s afterIndex good =
     (case s of
        [] \<Rightarrow> ([], [], afterIndex, good)
      | c # cs \<Rightarrow>
          if c = CHR ''*'' then (badWidthString, cs, False, good)
          else
            (case parsenum s of
               (wid, widPresent, rest) \<Rightarrow>
                 ([], rest, afterIndex, if afterIndex \<and> widPresent then False else good)))"

text \<open>The precision, present only after a dot.\<close>

definition prec_part :: "string \<Rightarrow> bool \<Rightarrow> bool \<Rightarrow> string \<times> string \<times> bool \<times> bool" where
  "prec_part s afterIndex good =
     (case s of
        [] \<Rightarrow> ([], s, afterIndex, good)
      | c # cs \<Rightarrow>
          if c = CHR ''.'' then
            (case argNumber cs (if afterIndex then False else good) of
               (s1, afterIndex1, good1) \<Rightarrow>
                 (case s1 of
                    [] \<Rightarrow> ([], [], afterIndex1, good1)
                  | d # ds \<Rightarrow>
                      if d = CHR ''*'' then (badPrecString, ds, False, good1)
                      else
                        (case parsenum s1 of
                           (prec, precPresent, rest) \<Rightarrow> ([], rest, afterIndex1, good1))))
          else ([], s, afterIndex, good))"

text \<open>
  The verb is one rune. \<open>utf8.DecodeRuneInString\<close> yields the rune and its size; a
  byte sequence that is not valid UTF-8 yields \<open>RuneError\<close> (U+FFFD) and size 1.
  \<open>decodeVerb\<close> returns the bytes that writing the rune back produces, and the size.
\<close>

definition cont :: "nat \<Rightarrow> nat \<Rightarrow> char \<Rightarrow> bool" where
  "cont lo hi c = (lo \<le> byte c \<and> byte c \<le> hi)"

definition RuneError :: string where
  "RuneError = [CHR 0xEF, CHR 0xBF, CHR 0xBD]"

fun decodeVerb :: "string \<Rightarrow> string \<times> nat" where
  "decodeVerb [] = (RuneError, 0)"
| "decodeVerb (c # cs) =
     (let b = byte c in
      if b < 128 then ([c], 1)
      else if 194 \<le> b \<and> b \<le> 223 then
        (case cs of
           c1 # _ \<Rightarrow> if cont 128 191 c1 then ([c, c1], 2) else (RuneError, 1)
         | _ \<Rightarrow> (RuneError, 1))
      else if 224 \<le> b \<and> b \<le> 239 then
        (case cs of
           c1 # c2 # _ \<Rightarrow>
             if cont (if b = 224 then 160 else 128) (if b = 237 then 159 else 191) c1
                \<and> cont 128 191 c2
             then ([c, c1, c2], 3) else (RuneError, 1)
         | _ \<Rightarrow> (RuneError, 1))
      else if 240 \<le> b \<and> b \<le> 244 then
        (case cs of
           c1 # c2 # c3 # _ \<Rightarrow>
             if cont (if b = 240 then 144 else 128) (if b = 244 then 143 else 191) c1
                \<and> cont 128 191 c2 \<and> cont 128 191 c3
             then ([c, c1, c2, c3], 4) else (RuneError, 1)
         | _ \<Rightarrow> (RuneError, 1))
      else (RuneError, 1))"

text \<open>
  One directive, from the byte after its \<open>%\<close>: what is written, and the rest of
  the format. A format that ends before the verb writes \<open>%!(NOVERB)\<close> and stops.
\<close>

definition printVerb :: "string \<Rightarrow> string \<times> string" where
  "printVerb s0 =
     (case argNumber (dropWhile is_flag s0) True of
        (s1, afterIndex1, good1) \<Rightarrow>
     (case width_part s1 afterIndex1 good1 of
        (out1, s2, afterIndex2, good2) \<Rightarrow>
     (case prec_part s2 afterIndex2 good2 of
        (out2, s3, afterIndex3, good3) \<Rightarrow>
     (case (if afterIndex3 then (s3, afterIndex3, good3) else argNumber s3 good3) of
        (s4, afterIndex4, good4) \<Rightarrow>
     (case s4 of
        [] \<Rightarrow> (out1 @ out2 @ noVerbString, [])
      | c # cs \<Rightarrow>
          (case decodeVerb s4 of
             (verb, sz) \<Rightarrow>
               (out1 @ out2 @
                  (if verb = ''%'' then ''%''
                   else if good4 then percentBangString @ verb @ missingString
                   else percentBangString @ verb @ badIndexString),
                drop sz s4)))))))"

text \<open>
  The directives never hand back more of the format than they were given, so
  the formatter's loop ends.
\<close>

lemma parsenum_from_length: "length (snd (snd (parsenum_from n b s))) \<le> length s"
  by (induction s arbitrary: n b) (auto simp: le_SucI)

lemma argNumber_length: "length (fst (argNumber s g)) \<le> length s"
  by (auto simp: argNumber_def split: list.splits prod.splits)

lemma width_part_length: "length (fst (snd (width_part s a g))) \<le> length s"
proof (cases s)
  case Nil
  then show ?thesis by (simp add: width_part_def)
next
  case (Cons c cs)
  have "length (snd (snd (parsenum_from 0 False s))) \<le> length s"
    by (rule parsenum_from_length)
  with Cons show ?thesis
    by (auto simp: width_part_def parsenum_def split: prod.splits)
qed

lemma prec_part_length: "length (fst (snd (prec_part s a g))) \<le> length s"
proof (cases s)
  case Nil
  then show ?thesis by (simp add: prec_part_def)
next
  case (Cons c cs)
  show ?thesis
  proof (cases "c = CHR ''.''")
    case False
    with Cons show ?thesis by (simp add: prec_part_def)
  next
    case True
    obtain s1 a1 g1 where an: "argNumber cs (if a then False else g) = (s1, a1, g1)"
      by (cases "argNumber cs (if a then False else g)") auto
    have l1: "length s1 \<le> length cs"
      using argNumber_length [of cs "if a then False else g"] an by simp
    have l2: "length (snd (snd (parsenum_from 0 False s1))) \<le> length s1"
      by (rule parsenum_from_length)
    from Cons True an l1 l2 show ?thesis
      by (auto simp: prec_part_def parsenum_def split: list.splits prod.splits)
  qed
qed

lemma printVerb_length: "length (snd (printVerb s)) \<le> length s"
proof -
  obtain s1 a1 g1 where e1: "argNumber (dropWhile is_flag s) True = (s1, a1, g1)"
    by (cases "argNumber (dropWhile is_flag s) True") auto
  obtain o1 s2 a2 g2 where e2: "width_part s1 a1 g1 = (o1, s2, a2, g2)"
    by (cases "width_part s1 a1 g1") auto
  obtain o2 s3 a3 g3 where e3: "prec_part s2 a2 g2 = (o2, s3, a3, g3)"
    by (cases "prec_part s2 a2 g2") auto
  obtain s4 a4 g4 where
    e4: "(if a3 then (s3, a3, g3) else argNumber s3 g3) = (s4, a4, g4)"
    by (cases "if a3 then (s3, a3, g3) else argNumber s3 g3") auto
  have "length (dropWhile is_flag s) \<le> length s"
    by (rule length_dropWhile_le)
  moreover have "length s1 \<le> length (dropWhile is_flag s)"
    using argNumber_length [of "dropWhile is_flag s" True] e1 by simp
  moreover have "length s2 \<le> length s1"
    using width_part_length [of s1 a1 g1] e2 by simp
  moreover have "length s3 \<le> length s2"
    using prec_part_length [of s2 a2 g2] e3 by simp
  moreover have "length s4 \<le> length s3"
    using argNumber_length [of s3 g3] e4 by (auto split: if_splits)
  ultimately have l4: "length s4 \<le> length s" by linarith
  have "snd (printVerb s) =
      (case s4 of [] \<Rightarrow> [] | c # cs \<Rightarrow> drop (snd (decodeVerb s4)) s4)"
    using e1 e2 e3 e4 by (simp add: printVerb_def split: list.splits prod.splits)
  then have "length (snd (printVerb s)) \<le> length s4"
    by (simp split: list.splits)
  with l4 show ?thesis by linarith
qed

lemma printVerb_rest: "(out, rest) = printVerb s \<Longrightarrow> length rest < Suc (length s)"
  using printVerb_length [of s] by (metis le_imp_less_Suc snd_conv)

text \<open>
  The formatter's loop: text up to the next \<open>%\<close> is copied, a \<open>%\<close> starts a
  directive.
\<close>

function doPrintf :: "string \<Rightarrow> string" where
  "doPrintf [] = []"
| "doPrintf (c # cs) =
     (if c = CHR ''%'' then
        (case printVerb cs of (out, rest) \<Rightarrow> out @ doPrintf rest)
      else c # doPrintf cs)"
  by pat_completeness auto
termination
  by (relation "measure length") (auto dest: printVerb_rest)

definition Sprintf :: "string \<Rightarrow> string" where
  "Sprintf format = doPrintf format"

section \<open>Values shared by both source files\<close>

text \<open>
  A Go error is a value. The two sentinel errors of \<open>svcerr\<close> that the sources
  return are constructors of their own; an error produced by a library or a
  collaborator is \<open>ExtErr\<close> with its text; \<open>fmt.Errorf\<close> without \<open>%w\<close> gives
  \<open>Errorf\<close> with the formatted message, and with a trailing \<open>%w\<close> it gives \<open>Wrapf\<close>
  with the text before the wrapped error.
\<close>

datatype error =
    ErrAuthentication
  | ErrAuthorization
  | ExtErr string
  | Errorf string
  | Wrapf string error

text \<open>
  A \<open>context.Context\<close> is either the background context, which is never
  cancelled, or a cancellable one together with whether it has been cancelled.
\<close>

datatype "context" = Background | WithCancel bool

text \<open>A function that can panic (a nil dereference) either panics or returns.\<close>

datatype 'a outcome = Panic | Return 'a

text \<open>
  The named constants of the packages \<open>pkg/clients\<close> and \<open>auth\<close> that the sources
  use. Their declarations are not among the sources, so their values are
  parameters of everything below: the role \<open>admin\<close>, the status \<open>enabled\<close>, the
  subject type, the administrator relation, the platform object and its type.
  \<open>Role\<close> and \<open>Status\<close> are small unsigned integers; the zero value of either is 0.
\<close>

record imported =
  AdminRole :: nat
  EnabledStatus :: nat
  UserType :: string
  AdministratorRelation :: string
  MagistralaObject :: string
  PlatformType :: string

text \<open>
  \<open>mgclients.Client\<close>, with the fields the sources set or read; every other field
  keeps its zero value throughout. \<open>Metadata\<close> is a map written once, kept as an
  association list; times are clock readings, zero for the zero time.
\<close>

record Credentials =
  Identity :: string
  Secret :: string

record Client =
  ID :: string
  Name :: string
  Credentials :: Credentials
  Metadata :: "(string \<times> string) list"
  CreatedAt :: nat
  UpdatedAt :: nat
  Role :: nat
  Status :: nat

definition Client_zero :: Client where
  "Client_zero =
     \<lparr>ID = [], Name = [], Credentials = \<lparr>Identity = [], Secret = []\<rparr>, Metadata = [],
      CreatedAt = 0, UpdatedAt = 0, Role = 0, Status = 0\<rparr>"

text \<open>\<open>oauth2.Token\<close>.\<close>

record Token =
  AccessToken :: string
  TokenType :: string
  RefreshToken :: string
  Expiry :: nat

definition Token_zero :: Token where
  "Token_zero = \<lparr>AccessToken = [], TokenType = [], RefreshToken = [], Expiry = 0\<rparr>"

section \<open>The identity provider: \<open>pkg/oauth2/kratos/provider.go\<close>\<close>

subsection \<open>HTTP requests and responses\<close>

text \<open>
  A request carries the context it was created under. A response is its status
  code and what \<open>io.ReadAll\<close> makes of its body. A client is its timeout in
  nanoseconds, zero meaning none.
\<close>

record Request =
  Method :: string
  URL :: string
  Header :: "(string \<times> string) list"
  Body :: "string option"
  Ctx :: "context"

record Response =
  StatusCode :: nat
  ReadAll :: "error + string"

record http_Client =
  Timeout :: nat

definition StatusOK :: nat where "StatusOK = 200"
definition MethodGet :: string where "MethodGet = ''GET''"
definition MethodPost :: string where "MethodPost = ''POST''"
definition Minute :: nat where "Minute = 60000000000"
definition DefaultClient :: http_Client where "DefaultClient = \<lparr>Timeout = 0\<rparr>"

definition Header_Add :: "Request \<Rightarrow> string \<Rightarrow> string \<Rightarrow> Request" where
  "Header_Add req k v = req\<lparr>Header := Header req @ [(k, v)]\<rparr>"

subsection \<open>What the provider code calls\<close>

text \<open>The anonymous struct \<open>UserDetails\<close> decodes into, named by its JSON keys.\<close>

record userinfo =
  sub :: string
  preferred_username :: string
  email :: string

text \<open>
  \<open>ory.GenericError\<close> as \<open>decodeError\<close> reads it: \<open>Message\<close> is a string, \<open>Reason\<close> a
  pointer to a string, nil when the JSON has no such key.
\<close>

record GenericError =
  Message :: string
  Reason :: "string option"

text \<open>\<open>ory.IntrospectedOAuth2Token\<close>, of which only \<open>Active\<close> is read.\<close>

record IntrospectedOAuth2Token =
  Active :: bool

text \<open>
  The collaborators of the provider code, none of them part of the repository:
  the token exchange of \<open>oauth2.Config\<close>, the URL parser inside
  \<open>http.NewRequest\<close> (the error it reports for a URL, if any), the HTTP round trip
  of a client, \<open>json.Unmarshal\<close> into each of the three target types, and the
  introspection call of the Ory client, which returns a token pointer, a
  response pointer and an error, each of which may be nil.
\<close>

record penv =
  Exchange :: "context \<Rightarrow> string \<Rightarrow> error + Token"
  url_Parse :: "string \<Rightarrow> error option"
  Do :: "http_Client \<Rightarrow> Request \<Rightarrow> error + Response"
  Unmarshal_user :: "string \<Rightarrow> error + userinfo"
  Unmarshal_Token :: "string \<Rightarrow> error + Token"
  Unmarshal_content :: "string \<Rightarrow> error + GenericError"
  IntrospectOAuth2Token ::
    "context \<Rightarrow> string \<Rightarrow> IntrospectedOAuth2Token option \<times> Response option \<times> error option"

text \<open>
  \<open>http.NewRequest\<close> creates the request under \<open>context.Background()\<close>;
  \<open>http.Get\<close> creates a GET request that way and sends it with the default client.
\<close>

definition NewRequest :: "penv \<Rightarrow> string \<Rightarrow> string \<Rightarrow> string option \<Rightarrow> error + Request" where
  "NewRequest env method url body =
     (case url_Parse env url of
        Some err \<Rightarrow> Inl err
      | None \<Rightarrow>
          Inr \<lparr>Method = method, URL = url, Header = [], Body = body, Ctx = Background\<rparr>)"

definition http_Get :: "penv \<Rightarrow> string \<Rightarrow> error + Response" where
  "http_Get env url =
     (case NewRequest env MethodGet url None of
        Inl err \<Rightarrow> Inl err
      | Inr req \<Rightarrow> Do env DefaultClient req)"

subsection \<open>The provider\<close>

definition providerName :: string where "providerName = ''kratos''"
definition defTimeout :: nat where "defTimeout = 1 * Minute"
definition userInfoEndpoint :: string where "userInfoEndpoint = ''/userinfo?access_token=''"
definition authEndpoint :: string where "authEndpoint = ''/oauth2/auth''"
definition TokenEndpoint :: string where "TokenEndpoint = ''/oauth2/token''"

definition scopes :: "string list" where
  "scopes = [''email'', ''profile'', ''offline_access'']"

text \<open>
  The provider's \<open>config\<close> struct, with the fields of the \<open>oauth2.Config\<close> it holds
  written next to its own. The Ory client it holds is the introspection call of
  \<open>penv\<close>.
\<close>

record provider =
  ClientID :: string
  ClientSecret :: string
  AuthURL :: string
  TokenURL :: string
  RedirectURL :: string
  Scopes :: "string list"
  state :: string
  baseURL :: string
  uiRedirectURL :: string
  errorURL :: string

text \<open>\<open>mgoauth2.Config\<close>, the provider's settings as configured.\<close>

record oauth2_Config =
  cfg_ClientID :: string
  cfg_ClientSecret :: string
  cfg_State :: string
  cfg_RedirectURL :: string

definition NewProvider :: "oauth2_Config \<Rightarrow> string \<Rightarrow> string \<Rightarrow> string \<Rightarrow> provider" where
  "NewProvider cfg base uiRedirect errURL =
     \<lparr>ClientID = cfg_ClientID cfg, ClientSecret = cfg_ClientSecret cfg,
      AuthURL = base @ authEndpoint, TokenURL = base @ TokenEndpoint,
      RedirectURL = cfg_RedirectURL cfg, Scopes = scopes, state = cfg_State cfg,
      baseURL = base, uiRedirectURL = uiRedirect, errorURL = errURL\<rparr>"

definition IsEnabled :: "provider \<Rightarrow> bool" where
  "IsEnabled cfg = (ClientID cfg \<noteq> [] \<and> ClientSecret cfg \<noteq> [])"

text \<open>
  \<open>UserDetails\<close> returns an account record, a token and an error; on every failure
  the first two are the zero values.
\<close>

definition UserDetails ::
  "imported \<Rightarrow> penv \<Rightarrow> provider \<Rightarrow> context \<Rightarrow> string \<Rightarrow> Client \<times> Token \<times> error option" where
  "UserDetails K env cfg ctx code =
     (case Exchange env ctx code of
        Inl err \<Rightarrow> (Client_zero, Token_zero, Some err)
      | Inr token \<Rightarrow>
          if RefreshToken token = [] then (Client_zero, Token_zero, Some ErrAuthentication)
          else
            (case http_Get env (baseURL cfg @ userInfoEndpoint @ QueryEscape (AccessToken token)) of
               Inl err \<Rightarrow> (Client_zero, Token_zero, Some err)
             | Inr resp \<Rightarrow>
                 if StatusCode resp \<noteq> StatusOK
                 then (Client_zero, Token_zero, Some ErrAuthentication)
                 else
                   (case ReadAll resp of
                      Inl err \<Rightarrow> (Client_zero, Token_zero, Some err)
                    | Inr data \<Rightarrow>
                        (case Unmarshal_user env data of
                           Inl err \<Rightarrow> (Client_zero, Token_zero, Some err)
                         | Inr user \<Rightarrow>
                             if sub user = [] \<or> preferred_username user = [] \<or> email user = []
                             then (Client_zero, Token_zero, Some ErrAuthentication)
                             else
                               (\<lparr>ID = sub user, Name = preferred_username user,
                                 Credentials = \<lparr>Identity = email user, Secret = []\<rparr>,
                                 Metadata = [(''oauth_provider'', providerName)],
                                 CreatedAt = 0, UpdatedAt = 0, Role = 0,
                                 Status = EnabledStatus K\<rparr>,
                                token, None)))))"

text \<open>
  \<open>decodeError\<close> reads the body through the response pointer and the reason
  through the \<open>Reason\<close> pointer, checking neither for nil.
\<close>

definition decodeError :: "penv \<Rightarrow> Response option \<Rightarrow> error outcome" where
  "decodeError env response =
     (case response of
        None \<Rightarrow> Panic
      | Some r \<Rightarrow>
          (case ReadAll r of
             Inl err \<Rightarrow> Return (Wrapf ''error reading response body: '' err)
           | Inr body \<Rightarrow>
               (case Unmarshal_content env body of
                  Inl err \<Rightarrow> Return (Wrapf ''error unmarshalling response body: '' err)
                | Inr content \<Rightarrow>
                    (case Reason content of
                       None \<Rightarrow> Panic
                     | Some reason \<Rightarrow>
                         Return (Errorf (''error: '' @ Message content
                                         @ '', reason: '' @ reason))))))"

definition Validate :: "penv \<Rightarrow> context \<Rightarrow> string \<Rightarrow> error option outcome" where
  "Validate env ctx token =
     (case IntrospectOAuth2Token env ctx token of
        (introspectedToken, resp, err) \<Rightarrow>
          (case err of
             Some e \<Rightarrow>
               (case decodeError env resp of
                  Panic \<Rightarrow> Panic
                | Return e' \<Rightarrow> Return (Some e'))
           | None \<Rightarrow>
               (case introspectedToken of
                  None \<Rightarrow> Panic
                | Some t \<Rightarrow>
                    if \<not> Active t then Return (Some ErrAuthentication)
                    else Return None)))"

definition basicAuth :: "string \<Rightarrow> string \<Rightarrow> string" where
  "basicAuth ident secret = EncodeToString (ident @ '':'' @ secret)"

text \<open>
  \<open>Refresh\<close> in two steps: \<open>Refresh_request\<close> is the request its first lines build
  (the payload, \<open>http.NewRequest\<close>, the two headers), \<open>Refresh\<close> sends it with a
  client of its own and reads the answer. The context argument is not used.
\<close>

definition Refresh_payload :: "string \<Rightarrow> string" where
  "Refresh_payload token =
     Sprintf (''grant_type=refresh_token&refresh_token='' @ token @ ''&scope=''
              @ Join scopes ''%20'')"

definition Refresh_request :: "penv \<Rightarrow> provider \<Rightarrow> string \<Rightarrow> error + Request" where
  "Refresh_request env cfg token =
     (case NewRequest env MethodPost (TokenURL cfg) (Some (Refresh_payload token)) of
        Inl err \<Rightarrow> Inl err
      | Inr req \<Rightarrow>
          Inr (Header_Add
                 (Header_Add req ''Content-Type'' ''application/x-www-form-urlencoded'')
                 ''Authorization'' (''Basic '' @ basicAuth (ClientID cfg) (ClientSecret cfg))))"

definition Refresh :: "penv \<Rightarrow> provider \<Rightarrow> context \<Rightarrow> string \<Rightarrow> Token \<times> error option" where
  "Refresh env cfg ctx token =
     (case Refresh_request env cfg token of
        Inl err \<Rightarrow> (Token_zero, Some err)
      | Inr req \<Rightarrow>
          (case Do env \<lparr>Timeout = defTimeout\<rparr> req of
             Inl err \<Rightarrow> (Token_zero, Some err)
           | Inr res \<Rightarrow>
               if StatusCode res \<noteq> StatusOK then (Token_zero, Some ErrAuthentication)
               else
                 (case ReadAll res of
                    Inl err \<Rightarrow> (Token_zero, Some err)
                  | Inr body \<Rightarrow>
                      (case Unmarshal_Token env body of
                         Inl err \<Rightarrow> (Token_zero, Some err)
                       | Inr tokenData \<Rightarrow> (tokenData, None)))))"

section \<open>The admin bootstrap: \<open>cmd/users/main.go\<close>\<close>

subsection \<open>What the bootstrap calls\<close>

text \<open>
  The requests and answers of the authorization service. The five fields of a
  request are, in order: subject type, subject, permission (for \<open>AddPolicyReq\<close>:
  relation), object, object type.
\<close>

datatype AuthorizeReq = AuthorizeReq string string string string string

datatype AddPolicyReq = AddPolicyReq string string string string string

record AuthorizeRes =
  Authorized :: bool

record AddPolicyRes =
  Added :: bool

text \<open>
  The account repository (\<open>RetrieveByIdentity\<close>, \<open>Save\<close>), the users service
  (\<open>IssueToken\<close>), the authorization client (\<open>Authorize\<close>, \<open>AddPolicy\<close>) and the
  clock are interfaces whose implementations are not among the sources. Each is
  a function of the state \<open>'s\<close> of the world outside the process, which it may
  change; a call that fails returns \<open>Inl\<close> of its error.
\<close>

record 's deps =
  Now :: "'s \<Rightarrow> nat \<times> 's"
  RetrieveByIdentity :: "context \<Rightarrow> string \<Rightarrow> 's \<Rightarrow> (error + Client) \<times> 's"
  Save :: "context \<Rightarrow> Client \<Rightarrow> 's \<Rightarrow> (error + Client) \<times> 's"
  IssueToken :: "context \<Rightarrow> string \<Rightarrow> string \<Rightarrow> string \<Rightarrow> 's \<Rightarrow> (error + string) \<times> 's"
  Authorize :: "context \<Rightarrow> AuthorizeReq \<Rightarrow> 's \<Rightarrow> (error + AuthorizeRes) \<times> 's"
  AddPolicy :: "context \<Rightarrow> AddPolicyReq \<Rightarrow> 's \<Rightarrow> (error + AddPolicyRes) \<times> 's"

text \<open>
  To count calls, the state is paired with the list of the collaborator calls
  made so far, oldest first.
\<close>

datatype call =
    CallRetrieveByIdentity string
  | CallSave Client
  | CallIssueToken string string string
  | CallAuthorize AuthorizeReq
  | CallAddPolicy AddPolicyReq

type_synonym 's world = "'s \<times> call list"

fun mutating :: "call \<Rightarrow> bool" where
  "mutating (CallRetrieveByIdentity _) = False"
| "mutating (CallSave _) = True"
| "mutating (CallIssueToken _ _ _) = True"
| "mutating (CallAuthorize _) = False"
| "mutating (CallAddPolicy _) = True"

fun is_AddPolicy :: "call \<Rightarrow> bool" where
  "is_AddPolicy (CallAddPolicy _) = True"
| "is_AddPolicy _ = False"

definition time_Now :: "'s deps \<Rightarrow> 's world \<Rightarrow> nat \<times> 's world" where
  "time_Now d w = (case Now d (fst w) of (t, s) \<Rightarrow> (t, (s, snd w)))"

definition call_RetrieveByIdentity ::
  "'s deps \<Rightarrow> context \<Rightarrow> string \<Rightarrow> 's world \<Rightarrow> (error + Client) \<times> 's world" where
  "call_RetrieveByIdentity d ctx ident w =
     (case RetrieveByIdentity d ctx ident (fst w) of
        (r, s) \<Rightarrow> (r, (s, snd w @ [CallRetrieveByIdentity ident])))"

definition call_Save ::
  "'s deps \<Rightarrow> context \<Rightarrow> Client \<Rightarrow> 's world \<Rightarrow> (error + Client) \<times> 's world" where
  "call_Save d ctx client w =
     (case Save d ctx client (fst w) of
        (r, s) \<Rightarrow> (r, (s, snd w @ [CallSave client])))"

definition call_IssueToken ::
  "'s deps \<Rightarrow> context \<Rightarrow> string \<Rightarrow> string \<Rightarrow> string \<Rightarrow> 's world \<Rightarrow> (error + string) \<times> 's world" where
  "call_IssueToken d ctx ident secret scope w =
     (case IssueToken d ctx ident secret scope (fst w) of
        (r, s) \<Rightarrow> (r, (s, snd w @ [CallIssueToken ident secret scope])))"

definition call_Authorize ::
  "'s deps \<Rightarrow> context \<Rightarrow> AuthorizeReq \<Rightarrow> 's world \<Rightarrow> (error + AuthorizeRes) \<times> 's world" where
  "call_Authorize d ctx req w =
     (case Authorize d ctx req (fst w) of
        (r, s) \<Rightarrow> (r, (s, snd w @ [CallAuthorize req])))"

definition call_AddPolicy ::
  "'s deps \<Rightarrow> context \<Rightarrow> AddPolicyReq \<Rightarrow> 's world \<Rightarrow> (error + AddPolicyRes) \<times> 's world" where
  "call_AddPolicy d ctx req w =
     (case AddPolicy d ctx req (fst w) of
        (r, s) \<Rightarrow> (r, (s, snd w @ [CallAddPolicy req])))"

subsection \<open>The bootstrap\<close>

text \<open>The fields of the service's \<open>config\<close> that the functions below read.\<close>

record config =
  AdminEmail :: string
  AdminPassword :: string
  InstanceID :: string

text \<open>
  The record \<open>createAdmin\<close> builds. The struct literal sets no \<open>ID\<close>, so the field
  is the empty string.
\<close>

definition admin_client :: "imported \<Rightarrow> config \<Rightarrow> nat \<Rightarrow> nat \<Rightarrow> Client" where
  "admin_client K c t1 t2 =
     \<lparr>ID = [], Name = ''admin-client'',
      Credentials = \<lparr>Identity = AdminEmail c, Secret = AdminPassword c\<rparr>,
      Metadata = [(''role'', ''admin'')],
      CreatedAt = t1, UpdatedAt = t2, Role = AdminRole K, Status = EnabledStatus K\<rparr>"

definition createAdmin ::
  "imported \<Rightarrow> 's deps \<Rightarrow> context \<Rightarrow> config \<Rightarrow> 's world \<Rightarrow> (error + string) \<times> 's world" where
  "createAdmin K d ctx c w0 =
     (case time_Now d w0 of (t1, w1) \<Rightarrow>
     (case time_Now d w1 of (t2, w2) \<Rightarrow>
     (let client = admin_client K c t1 t2 in
      (case call_RetrieveByIdentity d ctx (Identity (Credentials client)) w2 of
         (Inr found, w3) \<Rightarrow> (Inr (ID found), w3)
       | (Inl _, w3) \<Rightarrow>
           (case call_Save d ctx client w3 of
              (Inl err, w4) \<Rightarrow> (Inl err, w4)
            | (Inr _, w4) \<Rightarrow>
                (case call_IssueToken d ctx (AdminEmail c) (AdminPassword c) [] w4 of
                   (Inl err, w5) \<Rightarrow> (Inl err, w5)
                 | (Inr _, w5) \<Rightarrow> (Inr (ID client), w5)))))))"

definition admin_AuthorizeReq :: "imported \<Rightarrow> string \<Rightarrow> AuthorizeReq" where
  "admin_AuthorizeReq K clientID =
     AuthorizeReq (UserType K) clientID (AdministratorRelation K) (MagistralaObject K)
       (PlatformType K)"

definition admin_AddPolicyReq :: "imported \<Rightarrow> string \<Rightarrow> AddPolicyReq" where
  "admin_AddPolicyReq K clientID =
     AddPolicyReq (UserType K) clientID (AdministratorRelation K) (MagistralaObject K)
       (PlatformType K)"

definition createAdminPolicy ::
  "imported \<Rightarrow> 's deps \<Rightarrow> context \<Rightarrow> string \<Rightarrow> 's world \<Rightarrow> error option \<times> 's world" where
  "createAdminPolicy K d ctx clientID w0 =
     (case call_Authorize d ctx (admin_AuthorizeReq K clientID) w0 of
        (res, w1) \<Rightarrow>
          if (case res of Inl err \<Rightarrow> True | Inr r \<Rightarrow> \<not> Authorized r) then
            (case call_AddPolicy d ctx (admin_AddPolicyReq K clientID) w1 of
               (Inl err, w2) \<Rightarrow> (Some err, w2)
             | (Inr addPolicyRes, w2) \<Rightarrow>
                 if \<not> Added addPolicyRes then (Some ErrAuthorization, w2)
                 else (None, w2))
          else (None, w1))"

text \<open>
  The last lines of \<open>newService\<close>: the admin account, then its policy. The result
  is the account id the first step returned, or the error that stopped the run.
\<close>

definition adminBootstrap ::
  "imported \<Rightarrow> 's deps \<Rightarrow> context \<Rightarrow> config \<Rightarrow> 's world \<Rightarrow> (error + string) \<times> 's world" where
  "adminBootstrap K d ctx c w0 =
     (case createAdmin K d ctx c w0 of
        (Inl err, w1) \<Rightarrow> (Inl err, w1)
      | (Inr clientID, w1) \<Rightarrow>
          (case createAdminPolicy K d ctx clientID w1 of
             (Some err, w2) \<Rightarrow> (Inl err, w2)
           | (None, w2) \<Rightarrow> (Inr clientID, w2)))"

text \<open>
  \<open>newService\<close> builds the services from constructors outside the sources. Three
  of them can fail: the e-mailer, whose error is only logged, and the two event
  store middlewares, whose error is returned. Their outcomes are given; the
  services built are not looked into.
\<close>

record wiring =
  emailer_New :: "error option"
  users_NewEventStoreMiddleware :: "error option"
  groups_NewEventStoreMiddleware :: "error option"

datatype services = Services

definition newService ::
  "imported \<Rightarrow> 's deps \<Rightarrow> wiring \<Rightarrow> context \<Rightarrow> config \<Rightarrow> 's world \<Rightarrow> (error + services) \<times> 's world" where
  "newService K d wi ctx c w0 =
     (case users_NewEventStoreMiddleware wi of
        Some err \<Rightarrow> (Inl err, w0)
      | None \<Rightarrow>
          (case groups_NewEventStoreMiddleware wi of
             Some err \<Rightarrow> (Inl err, w0)
           | None \<Rightarrow>
               (case adminBootstrap K d ctx c w0 of
                  (Inl err, w1) \<Rightarrow> (Inl err, w1)
                | (Inr clientID, w1) \<Rightarrow> (Inr Services, w1))))"

text \<open>
  \<open>main\<close> as the sequence of its steps that can fail, each with its outcome
  given, around the call of \<open>newService\<close>. A failed step ends the process with
  exit code 1 (\<open>log.Fatalf\<close>, or \<open>exitCode = 1\<close> and the deferred exit); only when
  every step has succeeded are the HTTP server and the signal handler started.
\<close>

record boot =
  env_Parse_cfg :: "error + config"
  regexp_Compile :: "error option"
  mglog_New :: "error option"
  uuid_ID :: "error + string"
  env_Parse_email :: "error option"
  env_Parse_db :: "error option"
  pgclient_Setup :: "error option"
  jaegerclient_NewProvider :: "error option"
  env_Parse_auth :: "error option"
  auth_Setup :: "error option"
  service_wiring :: wiring
  env_Parse_http :: "error option"
  env_Parse_kratos :: "error option"

datatype run = Exit nat | Serving

definition main :: "imported \<Rightarrow> 's deps \<Rightarrow> boot \<Rightarrow> 's world \<Rightarrow> run \<times> 's world" where
  "main K d b w0 =
     (case env_Parse_cfg b of
        Inl err \<Rightarrow> (Exit 1, w0)
      | Inr cfg \<Rightarrow>
          if regexp_Compile b \<noteq> None then (Exit 1, w0)
          else if mglog_New b \<noteq> None then (Exit 1, w0)
          else if InstanceID cfg = [] \<and> isl (uuid_ID b) then (Exit 1, w0)
          else if env_Parse_email b \<noteq> None then (Exit 1, w0)
          else if env_Parse_db b \<noteq> None then (Exit 1, w0)
          else if pgclient_Setup b \<noteq> None then (Exit 1, w0)
          else if jaegerclient_NewProvider b \<noteq> None then (Exit 1, w0)
          else if env_Parse_auth b \<noteq> None then (Exit 1, w0)
          else if auth_Setup b \<noteq> None then (Exit 1, w0)
          else
            (case newService K d (service_wiring b) (WithCancel False)
                    (cfg\<lparr>InstanceID :=
                          if InstanceID cfg = [] then projr (uuid_ID b) else InstanceID cfg\<rparr>)
                    w0 of
               (Inl err, w1) \<Rightarrow> (Exit 1, w1)
             | (Inr svcs, w1) \<Rightarrow>
                 if env_Parse_http b \<noteq> None then (Exit 1, w1)
                 else if env_Parse_kratos b \<noteq> None then (Exit 1, w1)
                 else (Serving, w1)))"

section \<open>Collaborators to run the code against\<close>

subsection \<open>An account repository and an authorization service in memory\<close>

text \<open>
  Modelled from the spec: the account repository, the credential issuer and the
  authorization service behind the interfaces of \<open>deps\<close>, whose implementations
  are not among the sources. Following the contracts the spec lists:
  \<open>RetrieveByIdentity\<close> yields the record stored under an identity or not-found;
  \<open>Save\<close> stores a record and yields it with the id the store gave it (the caller
  supplies none: the next id comes from the store's own supply \<open>ids\<close>);
  \<open>IssueToken\<close> yields a token for a stored identity and its secret;
  \<open>Authorize\<close> answers whether the tuple has been added; \<open>AddPolicy\<close> adds it
  and answers \<open>added = true\<close>.
\<close>

record mem =
  accounts :: "Client list"
  policies :: "AddPolicyReq list"
  ids :: "string list"
  clock :: nat

definition ErrNotFound :: error where
  "ErrNotFound = ExtErr ''entity not found''"

definition mem_lookup :: "string \<Rightarrow> mem \<Rightarrow> Client option" where
  "mem_lookup ident s = find (\<lambda>a. Identity (Credentials a) = ident) (accounts s)"

definition mem_Now :: "mem \<Rightarrow> nat \<times> mem" where
  "mem_Now s = (clock s, s\<lparr>clock := Suc (clock s)\<rparr>)"

definition mem_RetrieveByIdentity :: "context \<Rightarrow> string \<Rightarrow> mem \<Rightarrow> (error + Client) \<times> mem" where
  "mem_RetrieveByIdentity ctx ident s =
     (case mem_lookup ident s of
        None \<Rightarrow> (Inl ErrNotFound, s)
      | Some a \<Rightarrow> (Inr a, s))"

definition mem_Save :: "context \<Rightarrow> Client \<Rightarrow> mem \<Rightarrow> (error + Client) \<times> mem" where
  "mem_Save ctx client s =
     (case mem_lookup (Identity (Credentials client)) s of
        Some a \<Rightarrow> (Inl (ExtErr ''entity already exists''), s)
      | None \<Rightarrow>
          (case ids s of
             [] \<Rightarrow> (Inl (ExtErr ''failed to create entity''), s)
           | i # rest \<Rightarrow>
               (Inr (client\<lparr>ID := i\<rparr>),
                s\<lparr>accounts := accounts s @ [client\<lparr>ID := i\<rparr>], ids := rest\<rparr>)))"

definition mem_IssueToken ::
  "context \<Rightarrow> string \<Rightarrow> string \<Rightarrow> string \<Rightarrow> mem \<Rightarrow> (error + string) \<times> mem" where
  "mem_IssueToken ctx ident secret scope s =
     (case mem_lookup ident s of
        None \<Rightarrow> (Inl ErrAuthentication, s)
      | Some a \<Rightarrow>
          if Secret (Credentials a) = secret then (Inr (''access-token-of-'' @ ID a), s)
          else (Inl ErrAuthentication, s))"

definition mem_Authorize :: "context \<Rightarrow> AuthorizeReq \<Rightarrow> mem \<Rightarrow> (error + AuthorizeRes) \<times> mem" where
  "mem_Authorize ctx req s =
     (case req of
        AuthorizeReq st su pe ob ot \<Rightarrow>
          (Inr \<lparr>Authorized = (AddPolicyReq st su pe ob ot \<in> set (policies s))\<rparr>, s))"

definition mem_AddPolicy :: "context \<Rightarrow> AddPolicyReq \<Rightarrow> mem \<Rightarrow> (error + AddPolicyRes) \<times> mem" where
  "mem_AddPolicy ctx req s = (Inr \<lparr>Added = True\<rparr>, s\<lparr>policies := policies s @ [req]\<rparr>)"

definition mem_deps :: "mem deps" where
  "mem_deps =
     \<lparr>Now = mem_Now, RetrieveByIdentity = mem_RetrieveByIdentity, Save = mem_Save,
      IssueToken = mem_IssueToken, Authorize = mem_Authorize, AddPolicy = mem_AddPolicy\<rparr>"

text \<open>
  An empty deployment: no account, no policy, one id for the store to hand out.
  The settings are the defaults of the service's configuration; the imported
  constants are given sample values.
\<close>

definition mem_empty :: mem where
  "mem_empty =
     \<lparr>accounts = [], policies = [], ids = [''0e5a7c1c-53c1-4f0e-9d6e-3b1d2f4a8c10''],
      clock = 1\<rparr>"

definition cfg_default :: config where
  "cfg_default =
     \<lparr>AdminEmail = ''admin@example.com'', AdminPassword = ''12345678'', InstanceID = []\<rparr>"

definition K_sample :: imported where
  "K_sample =
     \<lparr>AdminRole = 1, EnabledStatus = 0, UserType = ''user'',
      AdministratorRelation = ''administrator'', MagistralaObject = ''magistrala'',
      PlatformType = ''platform''\<rparr>"

text \<open>
  A deployment that is set up: the admin account is stored under an id of the
  store's, it holds the administrator relation, and the store has an id to spare.
\<close>

definition mem_with_admin :: mem where
  "mem_with_admin =
     \<lparr>accounts =
        [\<lparr>ID = ''0e5a7c1c-53c1-4f0e-9d6e-3b1d2f4a8c10'', Name = ''admin-client'',
          Credentials = \<lparr>Identity = ''admin@example.com'', Secret = ''12345678''\<rparr>,
          Metadata = [(''role'', ''admin'')], CreatedAt = 1, UpdatedAt = 2,
          Role = 1, Status = 0\<rparr>],
      policies =
        [AddPolicyReq ''user'' ''0e5a7c1c-53c1-4f0e-9d6e-3b1d2f4a8c10'' ''administrator''
           ''magistrala'' ''platform''],
      ids = [''7d2f9b64-1a3e-4c58-b0d7-5e8a9c0f1b22''], clock = 10\<rparr>"

text \<open>The world after one bootstrap of the empty deployment, and after a second.\<close>

definition first_run :: "(error + string) \<times> mem world" where
  "first_run = adminBootstrap K_sample mem_deps Background cfg_default (mem_empty, [])"

definition second_run :: "(error + string) \<times> mem world" where
  "second_run = adminBootstrap K_sample mem_deps Background cfg_default (snd first_run)"

text \<open>
  The same services with an authorization service that declines every grant,
  and with a repository whose lookup fails for a reason other than absence.
\<close>

definition declining_deps :: "mem deps" where
  "declining_deps = mem_deps\<lparr>AddPolicy := \<lambda>ctx req s. (Inr \<lparr>Added = False\<rparr>, s)\<rparr>"

definition flaky_deps :: "mem deps" where
  "flaky_deps =
     mem_deps\<lparr>RetrieveByIdentity := \<lambda>ctx ident s. (Inl (ExtErr ''connection reset by peer''), s)\<rparr>"

definition wiring_ok :: wiring where
  "wiring_ok =
     \<lparr>emailer_New = None, users_NewEventStoreMiddleware = None,
      groups_NewEventStoreMiddleware = None\<rparr>"

definition boot_ok :: boot where
  "boot_ok =
     \<lparr>env_Parse_cfg = Inr cfg_default, regexp_Compile = None, mglog_New = None,
      uuid_ID = Inr ''b2a9d5c4-0c54-4b52-8a0b-6f6f0f1f2a3b'', env_Parse_email = None,
      env_Parse_db = None, pgclient_Setup = None, jaegerclient_NewProvider = None,
      env_Parse_auth = None, auth_Setup = None, service_wiring = wiring_ok,
      env_Parse_http = None, env_Parse_kratos = None\<rparr>"

subsection \<open>An identity provider with canned answers\<close>

text \<open>
  A provider for running the provider code. Six bodies are listed. Each of the
  three JSON decoders answers, for every one of the six, what \<open>json.Unmarshal\<close>
  decodes it to: a key the target has no field for is ignored, and a field
  whose key is missing keeps its zero value (nil for the \<open>Reason\<close> pointer). The
  decoders stand for \<open>json.Unmarshal\<close> on these six bodies only; to any other
  body they answer with an error, and nothing below hands them one. The round
  trip refuses a request whose context is cancelled and otherwise answers 200,
  with the first given body to a GET and with the second to a POST.
\<close>

definition body_error_full :: string where
  \<open>body_error_full = ''{"error":{"message":"invalid_token","reason":"expired"}}''\<close>

definition body_error_no_reason :: string where
  \<open>body_error_no_reason = ''{"error":{"message":"invalid_token"}}''\<close>

definition body_userinfo :: string where
  \<open>body_userinfo = ''{"sub":"u-1","preferred_username":"jane","email":"jane@example.com"}''\<close>

definition body_userinfo_no_email :: string where
  \<open>body_userinfo_no_email = ''{"sub":"u-1","preferred_username":"jane"}''\<close>

definition body_token :: string where
  \<open>body_token = ''{"access_token":"at-2","refresh_token":"rt-2","token_type":"bearer"}''\<close>

definition body_empty_object :: string where
  "body_empty_object = ''{}''"

definition syntax_error :: error where
  "syntax_error = ExtErr ''invalid character''"

definition canceled :: error where
  "canceled = ExtErr ''context canceled''"

definition token_full :: Token where
  "token_full =
     \<lparr>AccessToken = ''at-1'', TokenType = ''bearer'', RefreshToken = ''rt-1'', Expiry = 0\<rparr>"

definition token_no_refresh :: Token where
  "token_no_refresh =
     \<lparr>AccessToken = ''at-1'', TokenType = ''bearer'', RefreshToken = [], Expiry = 0\<rparr>"

definition canned_Exchange :: "context \<Rightarrow> string \<Rightarrow> error + Token" where
  "canned_Exchange ctx code =
     (if ctx = WithCancel True then Inl canceled
      else if code = ''code-1'' then Inr token_full
      else if code = ''code-2'' then Inr token_no_refresh
      else Inl (ExtErr ''invalid_grant''))"

definition canned_Unmarshal_user :: "string \<Rightarrow> error + userinfo" where
  "canned_Unmarshal_user data =
     (if data = body_userinfo then
        Inr \<lparr>sub = ''u-1'', preferred_username = ''jane'', email = ''jane@example.com''\<rparr>
      else if data = body_userinfo_no_email then
        Inr \<lparr>sub = ''u-1'', preferred_username = ''jane'', email = []\<rparr>
      else if data = body_empty_object \<or> data = body_token \<or> data = body_error_full
              \<or> data = body_error_no_reason then
        Inr \<lparr>sub = [], preferred_username = [], email = []\<rparr>
      else Inl syntax_error)"

definition canned_Unmarshal_Token :: "string \<Rightarrow> error + Token" where
  "canned_Unmarshal_Token data =
     (if data = body_token then
        Inr \<lparr>AccessToken = ''at-2'', TokenType = ''bearer'', RefreshToken = ''rt-2'',
             Expiry = 0\<rparr>
      else if data = body_empty_object \<or> data = body_userinfo \<or> data = body_userinfo_no_email
              \<or> data = body_error_full \<or> data = body_error_no_reason then
        Inr Token_zero
      else Inl syntax_error)"

definition canned_Unmarshal_content :: "string \<Rightarrow> error + GenericError" where
  "canned_Unmarshal_content data =
     (if data = body_error_full then
        Inr \<lparr>Message = ''invalid_token'', Reason = Some ''expired''\<rparr>
      else if data = body_error_no_reason then
        Inr \<lparr>Message = ''invalid_token'', Reason = None\<rparr>
      else if data = body_empty_object \<or> data = body_userinfo \<or> data = body_userinfo_no_email
              \<or> data = body_token then
        Inr \<lparr>Message = [], Reason = None\<rparr>
      else Inl syntax_error)"

definition canned_Do :: "string \<Rightarrow> string \<Rightarrow> http_Client \<Rightarrow> Request \<Rightarrow> error + Response" where
  "canned_Do get_body post_body client req =
     (if Ctx req = WithCancel True then Inl canceled
      else if Method req = MethodGet then Inr \<lparr>StatusCode = 200, ReadAll = Inr get_body\<rparr>
      else Inr \<lparr>StatusCode = 200, ReadAll = Inr post_body\<rparr>)"

definition canned_Introspect ::
  "context \<Rightarrow> string \<Rightarrow> IntrospectedOAuth2Token option \<times> Response option \<times> error option" where
  "canned_Introspect ctx token =
     (if token = ''live'' then
        (Some \<lparr>Active = True\<rparr>, Some \<lparr>StatusCode = 200, ReadAll = Inr ''{}''\<rparr>, None)
      else if token = ''stale'' then
        (Some \<lparr>Active = False\<rparr>, Some \<lparr>StatusCode = 200, ReadAll = Inr ''{}''\<rparr>, None)
      else if token = ''denied'' then
        (None, Some \<lparr>StatusCode = 401, ReadAll = Inr body_error_full\<rparr>,
         Some (ExtErr ''401 Unauthorized''))
      else (None, None, Some (ExtErr ''dial tcp: connection refused'')))"

definition canned :: "string \<Rightarrow> string \<Rightarrow> penv" where
  "canned get_body post_body =
     \<lparr>Exchange = canned_Exchange, url_Parse = (\<lambda>url. None),
      Do = canned_Do get_body post_body, Unmarshal_user = canned_Unmarshal_user,
      Unmarshal_Token = canned_Unmarshal_Token,
      Unmarshal_content = canned_Unmarshal_content,
      IntrospectOAuth2Token = canned_Introspect\<rparr>"

definition kratos_local :: provider where
  "kratos_local =
     NewProvider
       \<lparr>cfg_ClientID = ''id'', cfg_ClientSecret = ''secret'', cfg_State = ''st'',
        cfg_RedirectURL = ''http://localhost/callback''\<rparr>
       ''http://localhost:4433'' ''http://localhost:9095/domains''
       ''http://localhost:9095/error''"

section \<open>Evaluating the definitions\<close>

lemmas sprintf_eval =
  Sprintf_def printVerb_def argNumber_def width_part_def prec_part_def parsenum_def
  is_flag_def is_digit_def byte_def tooLarge_def percentBangString_def missingString_def

lemmas canned_eval =
  canned_def canned_Exchange_def canned_Unmarshal_user_def canned_Unmarshal_Token_def
  canned_Unmarshal_content_def canned_Do_def canned_Introspect_def kratos_local_def
  NewProvider_def body_error_full_def body_error_no_reason_def body_userinfo_def
  body_userinfo_no_email_def body_token_def body_empty_object_def syntax_error_def
  canceled_def token_full_def token_no_refresh_def

lemmas http_eval =
  http_Get_def NewRequest_def MethodGet_def MethodPost_def StatusOK_def DefaultClient_def
  Header_Add_def defTimeout_def Minute_def

lemma Contains_prefix: "Contains (needle @ ys) needle"
proof (cases "needle @ ys")
  case Nil
  then show ?thesis by simp
next
  case (Cons a rest)
  have "take (length needle) (needle @ ys) = needle" by simp
  with Cons show ?thesis by (metis Contains.simps(2))
qed

lemma Contains_append: "Contains (xs @ needle @ ys) needle"
proof (induction xs)
  case Nil
  show ?case using Contains_prefix by simp
next
  case (Cons x xs)
  then show ?case by simp
qed

section \<open>Properties of the provider\<close>

subsection \<open>\<open>UserDetails\<close>\<close>

text \<open>
  Claim C5. Take any authorization code whose exchange succeeds with a non-empty
  refresh token and whose identity lookup answers 200 with a body that reads
  and parses. Then \<open>UserDetails\<close> returns no error exactly when the parsed subject
  id, name and email are all non-empty; in that case it returns the account
  record built from them together with the exchanged token, and otherwise it
  returns an authentication error with the zero account record and the zero
  token, never a partly filled record.
\<close>

theorem UserDetails_identity_fields:
  assumes "Exchange env ctx code = Inr token"
    and "RefreshToken token \<noteq> []"
    and "http_Get env (baseURL cfg @ userInfoEndpoint @ QueryEscape (AccessToken token)) = Inr resp"
    and "StatusCode resp = StatusOK"
    and "ReadAll resp = Inr data"
    and "Unmarshal_user env data = Inr user"
  shows "((snd (snd (UserDetails K env cfg ctx code)) = None)
            = (sub user \<noteq> [] \<and> preferred_username user \<noteq> [] \<and> email user \<noteq> []))
       \<and> UserDetails K env cfg ctx code =
           (if sub user \<noteq> [] \<and> preferred_username user \<noteq> [] \<and> email user \<noteq> []
            then (\<lparr>ID = sub user, Name = preferred_username user,
                   Credentials = \<lparr>Identity = email user, Secret = []\<rparr>,
                   Metadata = [(''oauth_provider'', ''kratos'')],
                   CreatedAt = 0, UpdatedAt = 0, Role = 0, Status = EnabledStatus K\<rparr>,
                  token, None)
            else (Client_zero, Token_zero, Some ErrAuthentication))"
  using assms by (simp add: UserDetails_def providerName_def)

text \<open>
  The theorem at two concrete lookups: a complete identity gives the record, one
  without an email gives the authentication error and the zero values.
\<close>

theorem UserDetails_identity_fields_witness:
  "UserDetails K_sample (canned body_userinfo body_token) kratos_local Background ''code-1''
     = (\<lparr>ID = ''u-1'', Name = ''jane'',
         Credentials = \<lparr>Identity = ''jane@example.com'', Secret = []\<rparr>,
         Metadata = [(''oauth_provider'', ''kratos'')],
         CreatedAt = 0, UpdatedAt = 0, Role = 0, Status = 0\<rparr>,
        token_full, None)
   \<and> UserDetails K_sample (canned body_userinfo_no_email body_token) kratos_local Background
       ''code-1''
     = (Client_zero, Token_zero, Some ErrAuthentication)"
proof -
  let ?url = "baseURL kratos_local @ userInfoEndpoint @ QueryEscape (AccessToken token_full)"
  have ex: "\<And>g. Exchange (canned g body_token) Background ''code-1'' = Inr token_full"
    by (simp add: canned_eval)
  have rt: "RefreshToken token_full \<noteq> []"
    by (simp add: token_full_def)
  have get: "\<And>g. http_Get (canned g body_token) ?url
               = Inr \<lparr>StatusCode = 200, ReadAll = Inr g\<rparr>"
    by (simp add: http_eval canned_def canned_Do_def)
  have u1: "Unmarshal_user (canned body_userinfo body_token) body_userinfo
              = Inr \<lparr>sub = ''u-1'', preferred_username = ''jane'', email = ''jane@example.com''\<rparr>"
    by (simp add: canned_def canned_Unmarshal_user_def)
  have u2: "Unmarshal_user (canned body_userinfo_no_email body_token) body_userinfo_no_email
              = Inr \<lparr>sub = ''u-1'', preferred_username = ''jane'', email = []\<rparr>"
    by (simp add: canned_def canned_Unmarshal_user_def body_userinfo_def body_userinfo_no_email_def)
  show ?thesis
    using UserDetails_identity_fields [OF ex rt get _ _ u1, of K_sample]
      UserDetails_identity_fields [OF ex rt get _ _ u2, of K_sample]
    by (simp add: StatusOK_def K_sample_def)
qed

text \<open>
  Claim C7. For every authorization code, if the exchange returns a token whose
  refresh token is the empty string, \<open>UserDetails\<close> fails with an authentication
  error and returns the zero account record and the zero token, whatever the
  access token is.
\<close>

theorem UserDetails_empty_refresh_token:
  assumes "Exchange env ctx code = Inr token" and "RefreshToken token = []"
  shows "UserDetails K env cfg ctx code = (Client_zero, Token_zero, Some ErrAuthentication)"
  using assms by (simp add: UserDetails_def)

text \<open>The theorem at a token that has an access token and no refresh token.\<close>

theorem UserDetails_empty_refresh_token_witness:
  "AccessToken token_no_refresh = ''at-1''
   \<and> UserDetails K_sample (canned body_userinfo body_token) kratos_local Background ''code-2''
     = (Client_zero, Token_zero, Some ErrAuthentication)"
proof -
  have ex: "Exchange (canned body_userinfo body_token) Background ''code-2'' = Inr token_no_refresh"
    by (simp add: canned_eval)
  have rt: "RefreshToken token_no_refresh = []"
    by (simp add: token_no_refresh_def)
  show ?thesis
    using UserDetails_empty_refresh_token [OF ex rt] by (simp add: token_no_refresh_def)
qed

subsection \<open>\<open>decodeError\<close>\<close>

text \<open>
  What \<open>decodeError\<close> returns when nothing it dereferences is nil: the one
  message with both fields for a body of the structured shape, and an error
  that wraps the reader's or the decoder's error otherwise.
\<close>

lemma decodeError_structured:
  assumes "ReadAll r = Inr body" and "Unmarshal_content env body = Inr content"
    and "Reason content = Some reason"
  shows "decodeError env (Some r)
           = Return (Errorf (''error: '' @ Message content @ '', reason: '' @ reason))
       \<and> Contains (''error: '' @ Message content @ '', reason: '' @ reason) (Message content)
       \<and> Contains (''error: '' @ Message content @ '', reason: '' @ reason) reason"
proof -
  have "Contains ((''error: '' @ Message content @ '', reason: '') @ reason @ []) reason"
    by (rule Contains_append)
  then show ?thesis
    using assms Contains_append [of "''error: ''" "Message content" "'', reason: '' @ reason"]
    by (simp add: decodeError_def)
qed

lemma decodeError_unreadable:
  assumes "ReadAll r = Inl err"
  shows "decodeError env (Some r) = Return (Wrapf ''error reading response body: '' err)"
  using assms by (simp add: decodeError_def)

lemma decodeError_unparseable:
  assumes "ReadAll r = Inr body" and "Unmarshal_content env body = Inl err"
  shows "decodeError env (Some r) = Return (Wrapf ''error unmarshalling response body: '' err)"
  using assms by (simp add: decodeError_def)

text \<open>
  A body that decodes without a reason leaves the \<open>Reason\<close> pointer nil, and a
  call that never got a response passes a nil response: either is dereferenced.
\<close>

lemma decodeError_nil_reason:
  assumes "ReadAll r = Inr body" and "Unmarshal_content env body = Inr content"
    and "Reason content = None"
  shows "decodeError env (Some r) = Panic"
  using assms by (simp add: decodeError_def)

lemma decodeError_nil_response: "decodeError env None = Panic"
  by (simp add: decodeError_def)

text \<open>The scenario of the spec: message \<open>invalid_token\<close>, reason \<open>expired\<close>.\<close>

lemma decodeError_scenario:
  "decodeError (canned body_userinfo body_token)
     (Some \<lparr>StatusCode = 401, ReadAll = Inr body_error_full\<rparr>)
     = Return (Errorf ''error: invalid_token, reason: expired'')"
  by (simp add: decodeError_def canned_def canned_Unmarshal_content_def)

text \<open>
  Claim C3 says that \<open>decodeError\<close> returns an error value for every provider
  error response and never panics, in particular not on a body whose reason
  field is absent. On the error body with the message \<open>invalid_token\<close> and no
  reason the code panics: the decoder leaves \<open>Reason\<close> nil and the final
  \<open>fmt.Errorf\<close> dereferences it.
\<close>

theorem decodeError_absent_reason_panics:
  "decodeError (canned body_userinfo body_token)
     (Some \<lparr>StatusCode = 401, ReadAll = Inr body_error_no_reason\<rparr>) = Panic"
  by (simp add: decodeError_def canned_def canned_Unmarshal_content_def
      body_error_full_def body_error_no_reason_def)

subsection \<open>\<open>Validate\<close>\<close>

text \<open>
  \<open>Validate\<close> returns no error exactly when the introspection call reports no
  error and an active token; an inactive token is an authentication error; an
  error of the call hands the response to \<open>decodeError\<close>.
\<close>

lemma Validate_success_iff:
  "(Validate env ctx token = Return None)
     = (\<exists>t resp. IntrospectOAuth2Token env ctx token = (Some t, resp, None) \<and> Active t)"
  by (cases "IntrospectOAuth2Token env ctx token")
     (auto simp: Validate_def split: option.splits outcome.splits)

lemma Validate_inactive:
  assumes "IntrospectOAuth2Token env ctx token = (Some t, resp, None)" and "\<not> Active t"
  shows "Validate env ctx token = Return (Some ErrAuthentication)"
  using assms by (simp add: Validate_def)

lemma Validate_delegates:
  assumes "IntrospectOAuth2Token env ctx token = (t, resp, Some err)"
  shows "Validate env ctx token
           = (case decodeError env resp of Panic \<Rightarrow> Panic | Return e \<Rightarrow> Return (Some e))"
  using assms by (simp add: Validate_def)

lemma Validate_nil_response:
  assumes "IntrospectOAuth2Token env ctx token = (t, None, Some err)"
  shows "Validate env ctx token = Panic"
  using assms by (simp add: Validate_def decodeError_def)

text \<open>An active token, an inactive one, and a refusal with a structured body.\<close>

lemma Validate_scenarios:
  "Validate (canned body_userinfo body_token) Background ''live'' = Return None
   \<and> Validate (canned body_userinfo body_token) Background ''stale''
       = Return (Some ErrAuthentication)
   \<and> Validate (canned body_userinfo body_token) Background ''denied''
       = Return (Some (Errorf ''error: invalid_token, reason: expired''))"
  by (simp add: Validate_def decodeError_def canned_def canned_Introspect_def
      canned_Unmarshal_content_def)

text \<open>
  Claim C4 says that a transport failure of the introspection call still
  surfaces as an error. When the call fails before any response arrives, it
  returns a nil response next to its error; \<open>Validate\<close> passes the nil response to
  \<open>decodeError\<close>, which reads its body, and the call panics instead of returning
  an error.
\<close>

theorem Validate_transport_failure_panics:
  "IntrospectOAuth2Token (canned body_userinfo body_token) Background ''tok''
     = (None, None, Some (ExtErr ''dial tcp: connection refused''))
   \<and> Validate (canned body_userinfo body_token) Background ''tok'' = Panic"
  by (simp add: Validate_def decodeError_def canned_def canned_Introspect_def)

subsection \<open>\<open>Refresh\<close>\<close>

text \<open>
  The scope list joined by \<open>%20\<close>, and what \<open>fmt.Sprintf\<close> makes of the payload
  when it reads it as a format: \<open>%20p\<close> and \<open>%20o\<close> are directives with width 20
  whose operands are missing.
\<close>

lemma Join_scopes: "Join scopes ''%20'' = ''email%20profile%20offline_access''"
  by (simp add: scopes_def)

lemma Refresh_payload_tok:
  "Refresh_payload ''tok''
     = ''grant_type=refresh_token&refresh_token=tok&scope=email%!p(MISSING)rofile%!o(MISSING)ffline_access''"
  by (simp add: Refresh_payload_def scopes_def sprintf_eval)

text \<open>
  The payload starts with the text that stands before the token, which the
  formatter copies: it holds no \<open>%\<close>.
\<close>

lemma Refresh_payload_prefix:
  "Refresh_payload token =
     ''grant_type=refresh_token&refresh_token=''
     @ doPrintf (token @ ''&scope=email%20profile%20offline_access'')"
  by (simp add: Refresh_payload_def Sprintf_def Join_scopes)

lemma Refresh_payload_percent:
  "Refresh_payload ''a%b''
     = ''grant_type=refresh_token&refresh_token=a%!b(MISSING)&scope=email%!p(MISSING)rofile%!o(MISSING)ffline_access''"
  by (simp add: Refresh_payload_def scopes_def sprintf_eval)

text \<open>
  Claim C6, as amended. For every refresh token, when the token URL parses,
  \<open>Refresh\<close> builds a POST request to the token URL whose form body starts with
  \<open>grant_type=refresh_token&refresh_token=\<close> and whose headers are
  \<open>Content-Type: application/x-www-form-urlencoded\<close> and \<open>Authorization: Basic\<close>
  followed by the base64 encoding of \<open>clientID:clientSecret\<close>. It sends the
  request through a client with a timeout of one minute. If the answer has a
  status other than 200 the result is the zero token and an authentication
  error; if it has status 200 and its body reads and decodes, the result is the
  decoded token as it is, whatever its access token. Nothing is said about the
  rest of the body.
\<close>

theorem Refresh_as_built:
  assumes "url_Parse env (TokenURL cfg) = None"
  shows "\<exists>req rest.
           Refresh_request env cfg token = Inr req
         \<and> Method req = ''POST'' \<and> URL req = TokenURL cfg
         \<and> Header req =
             [(''Content-Type'', ''application/x-www-form-urlencoded''),
              (''Authorization'',
               ''Basic '' @ EncodeToString (ClientID cfg @ '':'' @ ClientSecret cfg))]
         \<and> Body req = Some (''grant_type=refresh_token&refresh_token='' @ rest)
         \<and> (\<forall>res. Do env \<lparr>Timeout = 60000000000\<rparr> req = Inr res \<longrightarrow>
               (StatusCode res \<noteq> 200 \<longrightarrow>
                  Refresh env cfg ctx token = (Token_zero, Some ErrAuthentication))
             \<and> (\<forall>body tokenData.
                  StatusCode res = 200 \<and> ReadAll res = Inr body
                    \<and> Unmarshal_Token env body = Inr tokenData
                  \<longrightarrow> Refresh env cfg ctx token = (tokenData, None)))"
proof -
  define req where
    "req = \<lparr>Method = ''POST'', URL = TokenURL cfg,
             Header = [(''Content-Type'', ''application/x-www-form-urlencoded''),
                       (''Authorization'',
                        ''Basic '' @ EncodeToString (ClientID cfg @ '':'' @ ClientSecret cfg))],
             Body = Some (Refresh_payload token), Ctx = Background\<rparr>"
  define rest where "rest = doPrintf (token @ ''&scope=email%20profile%20offline_access'')"
  have built: "Refresh_request env cfg token = Inr req"
    using assms by (simp add: req_def Refresh_request_def basicAuth_def http_eval)
  have meth: "Method req = ''POST''" and url: "URL req = TokenURL cfg"
    and hdr: "Header req =
             [(''Content-Type'', ''application/x-www-form-urlencoded''),
              (''Authorization'',
               ''Basic '' @ EncodeToString (ClientID cfg @ '':'' @ ClientSecret cfg))]"
    by (simp_all add: req_def)
  have body: "Body req = Some (''grant_type=refresh_token&refresh_token='' @ rest)"
    unfolding rest_def using Refresh_payload_prefix [of token] by (simp add: req_def)
  have answered:
    "\<forall>res. Do env \<lparr>Timeout = 60000000000\<rparr> req = Inr res \<longrightarrow>
       (StatusCode res \<noteq> 200 \<longrightarrow>
          Refresh env cfg ctx token = (Token_zero, Some ErrAuthentication))
     \<and> (\<forall>body tokenData.
          StatusCode res = 200 \<and> ReadAll res = Inr body
            \<and> Unmarshal_Token env body = Inr tokenData
          \<longrightarrow> Refresh env cfg ctx token = (tokenData, None))"
    using built by (simp add: Refresh_def http_eval)
  from built meth url hdr body answered show ?thesis by blast
qed

text \<open>
  The theorem at the refresh token \<open>rt-1\<close> and the client \<open>id\<close> with secret
  \<open>secret\<close>, against a provider that answers 200 with a token body.
\<close>

theorem Refresh_as_built_witness:
  "map_sum id Header (Refresh_request (canned body_userinfo body_token) kratos_local ''rt-1'')
     = Inr [(''Content-Type'', ''application/x-www-form-urlencoded''),
            (''Authorization'', ''Basic aWQ6c2VjcmV0'')]
   \<and> Refresh (canned body_userinfo body_token) kratos_local Background ''rt-1''
       = (\<lparr>AccessToken = ''at-2'', TokenType = ''bearer'', RefreshToken = ''rt-2'', Expiry = 0\<rparr>,
          None)"
proof -
  let ?env = "canned body_userinfo body_token"
  have url: "url_Parse ?env (TokenURL kratos_local) = None"
    by (simp add: canned_def)
  obtain req rest where
    built: "Refresh_request ?env kratos_local ''rt-1'' = Inr req"
    and meth: "Method req = ''POST''"
    and hdr: "Header req =
             [(''Content-Type'', ''application/x-www-form-urlencoded''),
              (''Authorization'',
               ''Basic '' @ EncodeToString
                  (ClientID kratos_local @ '':'' @ ClientSecret kratos_local))]"
    and answered: "\<forall>res. Do ?env \<lparr>Timeout = 60000000000\<rparr> req = Inr res \<longrightarrow>
               (StatusCode res \<noteq> 200 \<longrightarrow>
                  Refresh ?env kratos_local Background ''rt-1''
                    = (Token_zero, Some ErrAuthentication))
             \<and> (\<forall>body tokenData.
                  StatusCode res = 200 \<and> ReadAll res = Inr body
                    \<and> Unmarshal_Token ?env body = Inr tokenData
                  \<longrightarrow> Refresh ?env kratos_local Background ''rt-1'' = (tokenData, None))"
    using Refresh_as_built [OF url, of "''rt-1''" Background] by blast
  have ctx: "Ctx req = Background"
    using built by (auto simp: Refresh_request_def http_eval canned_def)
  have send: "Do ?env \<lparr>Timeout = 60000000000\<rparr> req
                = Inr \<lparr>StatusCode = 200, ReadAll = Inr body_token\<rparr>"
    using meth ctx by (simp add: canned_def canned_Do_def MethodGet_def)
  have dec: "Unmarshal_Token ?env body_token
      = Inr \<lparr>AccessToken = ''at-2'', TokenType = ''bearer'', RefreshToken = ''rt-2'', Expiry = 0\<rparr>"
    by (simp add: canned_def canned_Unmarshal_Token_def)
  have b64: "EncodeToString ''id:secret'' = ''aWQ6c2VjcmV0''"
    by (simp add: enc64_def encodeStd_def byte_def)
  have "Refresh ?env kratos_local Background ''rt-1''
      = (\<lparr>AccessToken = ''at-2'', TokenType = ''bearer'', RefreshToken = ''rt-2'', Expiry = 0\<rparr>,
         None)"
    using answered send dec by simp
  moreover have "map_sum id Header (Refresh_request ?env kratos_local ''rt-1'')
     = Inr [(''Content-Type'', ''application/x-www-form-urlencoded''),
            (''Authorization'', ''Basic aWQ6c2VjcmV0'')]"
    using built hdr b64 by (simp add: kratos_local_def NewProvider_def)
  ultimately show ?thesis by simp
qed

text \<open>
  Claim C6 as stated fails in its body and in its result. At the refresh token
  \<open>tok\<close> the body sent does not contain the scopes joined by \<open>%20\<close>, because the
  formatter has replaced both delimiters; at the refresh token \<open>a%b\<close> it does
  not contain the refresh token either. And a 200 answer with the body \<open>{}\<close>
  decodes to the zero token, which \<open>Refresh\<close> returns as a success with an empty
  access token.
\<close>

theorem Refresh_claim_counterexample:
  "map_sum id Body (Refresh_request (canned body_userinfo body_empty_object) kratos_local ''tok'')
     = Inr (Some ''grant_type=refresh_token&refresh_token=tok&scope=email%!p(MISSING)rofile%!o(MISSING)ffline_access'')
   \<and> \<not> Contains (Refresh_payload ''tok'') ''email%20profile%20offline_access''
   \<and> \<not> Contains (Refresh_payload ''a%b'') ''a%b''
   \<and> Refresh (canned body_userinfo body_empty_object) kratos_local Background ''tok''
       = (Token_zero, None)
   \<and> AccessToken Token_zero = []"
  by (simp add: Refresh_def Refresh_request_def Refresh_payload_tok Refresh_payload_percent
      http_eval canned_def canned_Do_def canned_Unmarshal_Token_def body_empty_object_def
      body_token_def Token_zero_def kratos_local_def NewProvider_def)

subsection \<open>The caller's context\<close>

text \<open>
  \<open>Refresh\<close> never looks at its context; \<open>UserDetails\<close> hands its context to the
  exchange and to nothing else.
\<close>

lemma Refresh_ignores_ctx: "Refresh env cfg ctx token = Refresh env cfg Background token"
  by (simp add: Refresh_def)

lemma UserDetails_ctx_only_in_Exchange:
  assumes "Exchange env ctx code = Exchange env ctx' code"
  shows "UserDetails K env cfg ctx code = UserDetails K env cfg ctx' code"
  using assms by (simp add: UserDetails_def)

text \<open>
  Claim C9 says that the token-endpoint POST of \<open>Refresh\<close> and the
  identity-endpoint GET of \<open>UserDetails\<close> are issued under the caller's context,
  so that cancelling it aborts the call. With a caller's context that is
  already cancelled, \<open>Refresh\<close> still sends its request and returns the new token:
  the request it builds carries the background context. The GET is the request
  \<open>http.Get\<close> builds, under the background context as well; the same request
  under the cancelled context would have been refused.
\<close>

theorem outbound_calls_ignore_cancellation:
  "Refresh (canned body_userinfo body_token) kratos_local (WithCancel True) ''rt-1''
     = (\<lparr>AccessToken = ''at-2'', TokenType = ''bearer'', RefreshToken = ''rt-2'', Expiry = 0\<rparr>,
        None)
   \<and> map_sum id Ctx (Refresh_request (canned body_userinfo body_token) kratos_local ''rt-1'')
       = Inr Background
   \<and> http_Get (canned body_userinfo body_token) ''http://localhost:4433/userinfo?access_token=at-1''
       = Do (canned body_userinfo body_token) DefaultClient
           \<lparr>Method = ''GET'', URL = ''http://localhost:4433/userinfo?access_token=at-1'',
            Header = [], Body = None, Ctx = Background\<rparr>
   \<and> Do (canned body_userinfo body_token) DefaultClient
         \<lparr>Method = ''GET'', URL = ''http://localhost:4433/userinfo?access_token=at-1'',
          Header = [], Body = None, Ctx = WithCancel True\<rparr>
       = Inl canceled"
  by (simp add: Refresh_def Refresh_request_def http_eval canned_def canned_Do_def
      canned_Unmarshal_Token_def body_token_def body_empty_object_def)

section \<open>Properties of the admin bootstrap\<close>

lemmas call_defs =
  time_Now_def call_RetrieveByIdentity_def call_Save_def call_IssueToken_def
  call_Authorize_def call_AddPolicy_def

lemmas mem_eval =
  mem_deps_def mem_Now_def mem_RetrieveByIdentity_def mem_Save_def mem_IssueToken_def
  mem_Authorize_def mem_AddPolicy_def mem_lookup_def mem_empty_def cfg_default_def
  K_sample_def ErrNotFound_def declining_deps_def flaky_deps_def wiring_ok_def boot_ok_def

lemmas bootstrap_defs =
  adminBootstrap_def createAdmin_def createAdminPolicy_def admin_client_def
  admin_AuthorizeReq_def admin_AddPolicyReq_def

subsection \<open>The bootstrap on a deployment that is already set up\<close>

text \<open>
  When the lookup finds the admin account and the authorization service
  confirms the administrator relation, a run consists of these two calls and
  nothing else; neither of them is a mutating call. The run returns the id of
  the record found.
\<close>

lemma createAdmin_found:
  assumes "Now d s0 = (t1, s1)" and "Now d s1 = (t2, s2)"
    and "RetrieveByIdentity d ctx (AdminEmail c) s2 = (Inr found, s3)"
  shows "createAdmin K d ctx c (s0, tr)
           = (Inr (ID found), (s3, tr @ [CallRetrieveByIdentity (AdminEmail c)]))"
  using assms by (simp add: createAdmin_def call_defs admin_client_def)

lemma createAdminPolicy_granted:
  assumes "Authorize d ctx (admin_AuthorizeReq K clientID) s = (Inr r, s')" and "Authorized r"
  shows "createAdminPolicy K d ctx clientID (s, tr)
           = (None, (s', tr @ [CallAuthorize (admin_AuthorizeReq K clientID)]))"
  using assms by (simp add: createAdminPolicy_def call_defs)

lemma adminBootstrap_reads_only:
  assumes "Now d s0 = (t1, s1)" and "Now d s1 = (t2, s2)"
    and "RetrieveByIdentity d ctx (AdminEmail c) s2 = (Inr found, s3)"
    and "Authorize d ctx (admin_AuthorizeReq K (ID found)) s3 = (Inr r, s4)"
    and "Authorized r"
  shows "adminBootstrap K d ctx c (s0, tr)
           = (Inr (ID found),
              (s4, tr @ [CallRetrieveByIdentity (AdminEmail c),
                         CallAuthorize (admin_AuthorizeReq K (ID found))]))"
    and "filter mutating [CallRetrieveByIdentity (AdminEmail c),
                          CallAuthorize (admin_AuthorizeReq K (ID found))] = []"
  using createAdmin_found [OF assms(1,2,3), of K tr]
    createAdminPolicy_granted [OF assms(4,5)]
  by (simp_all add: adminBootstrap_def)

subsection \<open>The id of a freshly created admin account\<close>

text \<open>
  On the path that creates the account, \<open>createAdmin\<close> discards what \<open>Save\<close>
  returns and returns the \<open>ID\<close> field of the record it built itself, which it
  never set: whenever the lookup fails and the function still returns an id,
  that id is the empty string.
\<close>

lemma createAdmin_created_ID_empty:
  assumes "Now d s0 = (t1, s1)" and "Now d s1 = (t2, s2)"
    and "RetrieveByIdentity d ctx (AdminEmail c) s2 = (Inl e, s3)"
    and "fst (createAdmin K d ctx c (s0, tr)) = Inr clientID"
  shows "clientID = []"
  using assms
  by (auto simp: createAdmin_def call_defs admin_client_def Let_def
      split: prod.splits sum.splits)

text \<open>
  Two consecutive runs on the empty deployment. The first creates the account,
  which the store files under its own id, and grants the administrator relation
  to the subject with the empty id. The second finds the account, asks about
  the stored id, is told that it holds no such relation, and grants again.
\<close>

lemma first_run_value:
  "first_run =
     (Inr [],
      (\<lparr>accounts =
           [\<lparr>ID = ''0e5a7c1c-53c1-4f0e-9d6e-3b1d2f4a8c10'', Name = ''admin-client'',
             Credentials = \<lparr>Identity = ''admin@example.com'', Secret = ''12345678''\<rparr>,
             Metadata = [(''role'', ''admin'')], CreatedAt = 1, UpdatedAt = 2,
             Role = 1, Status = 0\<rparr>],
        policies = [AddPolicyReq ''user'' [] ''administrator'' ''magistrala'' ''platform''],
        ids = [], clock = 3\<rparr>,
       [CallRetrieveByIdentity ''admin@example.com'',
        CallSave \<lparr>ID = [], Name = ''admin-client'',
             Credentials = \<lparr>Identity = ''admin@example.com'', Secret = ''12345678''\<rparr>,
             Metadata = [(''role'', ''admin'')], CreatedAt = 1, UpdatedAt = 2,
             Role = 1, Status = 0\<rparr>,
        CallIssueToken ''admin@example.com'' ''12345678'' [],
        CallAuthorize (AuthorizeReq ''user'' [] ''administrator'' ''magistrala'' ''platform''),
        CallAddPolicy (AddPolicyReq ''user'' [] ''administrator'' ''magistrala'' ''platform'')]))"
  by (simp add: first_run_def bootstrap_defs call_defs mem_eval)

lemma second_run_value:
  "fst second_run = Inr ''0e5a7c1c-53c1-4f0e-9d6e-3b1d2f4a8c10''
   \<and> snd (snd second_run) = snd (snd first_run) @
       [CallRetrieveByIdentity ''admin@example.com'',
        CallAuthorize (AuthorizeReq ''user'' ''0e5a7c1c-53c1-4f0e-9d6e-3b1d2f4a8c10''
                         ''administrator'' ''magistrala'' ''platform''),
        CallAddPolicy (AddPolicyReq ''user'' ''0e5a7c1c-53c1-4f0e-9d6e-3b1d2f4a8c10''
                         ''administrator'' ''magistrala'' ''platform'')]"
  by (simp add: second_run_def first_run_value bootstrap_defs call_defs mem_eval)

text \<open>
  Claim C1 says that a run on a deployment that is already set up makes exactly
  two read calls and no mutating call, and that two consecutive runs from an
  empty state make at most one \<open>AddPolicy\<close> call in total. The first part holds
  (\<open>adminBootstrap_reads_only\<close>). The second does not: the two runs from the
  empty deployment make two \<open>AddPolicy\<close> calls, the first for the empty subject
  id that \<open>createAdmin\<close> returned, the second for the id under which the account
  was stored.
\<close>

theorem two_runs_add_policy_twice:
  "filter is_AddPolicy (snd (snd second_run)) =
     [CallAddPolicy (AddPolicyReq ''user'' [] ''administrator'' ''magistrala'' ''platform''),
      CallAddPolicy (AddPolicyReq ''user'' ''0e5a7c1c-53c1-4f0e-9d6e-3b1d2f4a8c10''
                       ''administrator'' ''magistrala'' ''platform'')]
   \<and> length (filter is_AddPolicy (snd (snd second_run))) = 2"
  using second_run_value by (simp add: first_run_value)

text \<open>
  Claim C2 says that the run that creates the account and the next run, which
  finds it, produce the same admin account id. On the empty deployment the
  first run returns the empty string and the second the id the store assigned.
\<close>

theorem two_runs_return_different_ids:
  "fst first_run = Inr []
   \<and> fst second_run = Inr ''0e5a7c1c-53c1-4f0e-9d6e-3b1d2f4a8c10''
   \<and> fst first_run \<noteq> fst second_run"
  using second_run_value by (simp add: first_run_value)

subsection \<open>Failure of the grant, failure of the lookup\<close>

text \<open>\<open>main\<close> starts no server when \<open>newService\<close> returns an error.\<close>

lemma main_exits_when_newService_fails:
  assumes "env_Parse_cfg b = Inr cfg"
    and "fst (newService K d (service_wiring b) (WithCancel False)
               (cfg\<lparr>InstanceID :=
                      if InstanceID cfg = [] then projr (uuid_ID b) else InstanceID cfg\<rparr>) w0)
           = Inl err"
  shows "fst (main K d b w0) = Exit 1"
  using assms by (auto simp: main_def split: prod.splits sum.splits)

text \<open>
  Claim C8. Suppose the bootstrap reaches the \<open>AddPolicy\<close> call (the admin
  account was found or created, and the check did not confirm the relation) and
  the authorization service answers that the grant was not added. Then
  \<open>createAdminPolicy\<close> returns the authorization error, the bootstrap and
  \<open>newService\<close> return that error, and \<open>main\<close>, called with this wiring and
  these settings, ends with exit code 1 and does not reach the start of the
  servers.
\<close>

theorem declined_grant_aborts_startup:
  assumes "users_NewEventStoreMiddleware wi = None"
    and "groups_NewEventStoreMiddleware wi = None"
    and "createAdmin K d ctx c w0 = (Inr clientID, w1)"
    and "call_Authorize d ctx (admin_AuthorizeReq K clientID) w1 = (res, w2)"
    and "(case res of Inl e \<Rightarrow> True | Inr r \<Rightarrow> \<not> Authorized r)"
    and "call_AddPolicy d ctx (admin_AddPolicyReq K clientID) w2 = (Inr \<lparr>Added = False\<rparr>, w3)"
  shows "createAdminPolicy K d ctx clientID w1 = (Some ErrAuthorization, w3)
       \<and> adminBootstrap K d ctx c w0 = (Inl ErrAuthorization, w3)
       \<and> newService K d wi ctx c w0 = (Inl ErrAuthorization, w3)
       \<and> (\<forall>b cfg. env_Parse_cfg b = Inr cfg \<and> service_wiring b = wi \<and> ctx = WithCancel False
              \<and> c = cfg\<lparr>InstanceID :=
                          if InstanceID cfg = [] then projr (uuid_ID b) else InstanceID cfg\<rparr>
            \<longrightarrow> fst (main K d b w0) = Exit 1)"
proof -
  have pol: "createAdminPolicy K d ctx clientID w1 = (Some ErrAuthorization, w3)"
    using assms(4,5,6) by (simp add: createAdminPolicy_def)
  have boot: "adminBootstrap K d ctx c w0 = (Inl ErrAuthorization, w3)"
    using assms(3) pol by (simp add: adminBootstrap_def)
  have svc: "newService K d wi ctx c w0 = (Inl ErrAuthorization, w3)"
    using assms(1,2) boot by (simp add: newService_def)
  have "fst (main K d b w0) = Exit 1"
    if "env_Parse_cfg b = Inr cfg" and "service_wiring b = wi" and "ctx = WithCancel False"
      and "c = cfg\<lparr>InstanceID :=
                     if InstanceID cfg = [] then projr (uuid_ID b) else InstanceID cfg\<rparr>"
    for b cfg
    using main_exits_when_newService_fails [OF that(1), of K d w0 ErrAuthorization] svc that
    by simp
  with pol boot svc show ?thesis by blast
qed

text \<open>
  The theorem on the empty deployment with an authorization service that
  declines every grant.
\<close>

theorem declined_grant_aborts_startup_witness:
  "fst (newService K_sample declining_deps wiring_ok (WithCancel False)
          (cfg_default\<lparr>InstanceID := ''b2a9d5c4-0c54-4b52-8a0b-6f6f0f1f2a3b''\<rparr>) (mem_empty, []))
     = Inl ErrAuthorization
   \<and> fst (main K_sample declining_deps boot_ok (mem_empty, [])) = Exit 1"
proof -
  let ?c = "cfg_default\<lparr>InstanceID := ''b2a9d5c4-0c54-4b52-8a0b-6f6f0f1f2a3b''\<rparr>"
  let ?ctx = "WithCancel False"
  define w1 where "w1 = snd (createAdmin K_sample declining_deps ?ctx ?c (mem_empty, []))"
  define w2 where "w2 = snd (call_Authorize declining_deps ?ctx (admin_AuthorizeReq K_sample []) w1)"
  define w3 where "w3 = snd (call_AddPolicy declining_deps ?ctx (admin_AddPolicyReq K_sample []) w2)"
  have e1: "users_NewEventStoreMiddleware wiring_ok = None"
    and e2: "groups_NewEventStoreMiddleware wiring_ok = None"
    by (simp_all add: wiring_ok_def)
  have adm: "createAdmin K_sample declining_deps ?ctx ?c (mem_empty, []) = (Inr [], w1)"
    unfolding w1_def by (simp add: bootstrap_defs call_defs mem_eval)
  have auth: "call_Authorize declining_deps ?ctx (admin_AuthorizeReq K_sample []) w1
                = (Inr \<lparr>Authorized = False\<rparr>, w2)"
    unfolding w2_def w1_def by (simp add: bootstrap_defs call_defs mem_eval)
  have no: "(case (Inr \<lparr>Authorized = False\<rparr> :: error + AuthorizeRes) of
               Inl e \<Rightarrow> True | Inr r \<Rightarrow> \<not> Authorized r)"
    by simp
  have add: "call_AddPolicy declining_deps ?ctx (admin_AddPolicyReq K_sample []) w2
               = (Inr \<lparr>Added = False\<rparr>, w3)"
    unfolding w3_def by (simp add: call_defs mem_eval)
  have b1: "env_Parse_cfg boot_ok = Inr cfg_default"
    and b2: "service_wiring boot_ok = wiring_ok"
    and b3: "?c = cfg_default\<lparr>InstanceID :=
                   if InstanceID cfg_default = [] then projr (uuid_ID boot_ok)
                   else InstanceID cfg_default\<rparr>"
    by (simp_all add: boot_ok_def cfg_default_def)
  show ?thesis
    using declined_grant_aborts_startup [OF e1 e2 adm auth no add] b1 b2 b3 by auto
qed

text \<open>
  Claim C10, as amended. Whatever error the lookup returns, not-found or any
  other, \<open>createAdmin\<close> goes on as if the account were absent: its next call is
  \<open>Save\<close> with the admin record. When \<open>Save\<close> succeeds the call after it is
  \<open>IssueToken\<close> with the configured email and password; when \<open>Save\<close> fails,
  \<open>createAdmin\<close> returns its error and \<open>IssueToken\<close> is not called. The error of
  the lookup appears nowhere in the result.
\<close>

theorem createAdmin_lookup_error_takes_creation_path:
  assumes "Now d s0 = (t1, s1)" and "Now d s1 = (t2, s2)"
    and "RetrieveByIdentity d ctx (AdminEmail c) s2 = (Inl e, s3)"
    and "Save d ctx (admin_client K c t1 t2) s3 = (saved, s4)"
    and "IssueToken d ctx (AdminEmail c) (AdminPassword c) [] s4 = (issued, s5)"
  shows "createAdmin K d ctx c (s0, tr) =
           (case saved of
              Inl err \<Rightarrow>
                (Inl err,
                 (s4, tr @ [CallRetrieveByIdentity (AdminEmail c),
                            CallSave (admin_client K c t1 t2)]))
            | Inr stored \<Rightarrow>
                (case issued of Inl err \<Rightarrow> Inl err | Inr tok \<Rightarrow> Inr [],
                 (s5, tr @ [CallRetrieveByIdentity (AdminEmail c),
                            CallSave (admin_client K c t1 t2),
                            CallIssueToken (AdminEmail c) (AdminPassword c) []])))"
  using assms
  by (simp add: createAdmin_def call_defs Let_def admin_client_def split: sum.splits)

text \<open>
  The theorem on the empty deployment behind a repository whose lookup fails
  with a connection error.
\<close>

theorem createAdmin_lookup_error_takes_creation_path_witness:
  "createAdmin K_sample flaky_deps Background cfg_default (mem_empty, []) =
     (Inr [],
      (\<lparr>accounts =
           [\<lparr>ID = ''0e5a7c1c-53c1-4f0e-9d6e-3b1d2f4a8c10'', Name = ''admin-client'',
             Credentials = \<lparr>Identity = ''admin@example.com'', Secret = ''12345678''\<rparr>,
             Metadata = [(''role'', ''admin'')], CreatedAt = 1, UpdatedAt = 2,
             Role = 1, Status = 0\<rparr>],
        policies = [], ids = [], clock = 3\<rparr>,
       [CallRetrieveByIdentity ''admin@example.com'',
        CallSave (admin_client K_sample cfg_default 1 2),
        CallIssueToken ''admin@example.com'' ''12345678'' []]))"
proof -
  let ?s1 = "mem_empty\<lparr>clock := 2\<rparr>"
  let ?s2 = "mem_empty\<lparr>clock := 3\<rparr>"
  let ?stored = "(admin_client K_sample cfg_default 1 2)\<lparr>ID := ''0e5a7c1c-53c1-4f0e-9d6e-3b1d2f4a8c10''\<rparr>"
  let ?s4 = "?s2\<lparr>accounts := [?stored], ids := []\<rparr>"
  have n1: "Now flaky_deps mem_empty = (1, ?s1)"
    and n2: "Now flaky_deps ?s1 = (2, ?s2)"
    by (simp_all add: mem_eval)
  have look: "RetrieveByIdentity flaky_deps Background (AdminEmail cfg_default) ?s2
                = (Inl (ExtErr ''connection reset by peer''), ?s2)"
    by (simp add: mem_eval)
  have save: "Save flaky_deps Background (admin_client K_sample cfg_default 1 2) ?s2
                = (Inr ?stored, ?s4)"
    by (simp add: mem_eval admin_client_def)
  have issue: "IssueToken flaky_deps Background (AdminEmail cfg_default)
                 (AdminPassword cfg_default) [] ?s4
                = (Inr ''access-token-of-0e5a7c1c-53c1-4f0e-9d6e-3b1d2f4a8c10'', ?s4)"
    by (simp add: mem_eval admin_client_def)
  show ?thesis
    using createAdmin_lookup_error_takes_creation_path
      [OF n1 n2 look save issue, of "[]"]
    by (simp add: mem_eval admin_client_def)
qed

text \<open>
  Claim C10 as stated says that after any lookup error \<open>createAdmin\<close> calls \<open>Save\<close>
  and \<open>IssueToken\<close>. On the deployment that is set up, behind a repository whose
  lookup fails with a connection error, \<open>Save\<close> is refused because the identity
  is taken; \<open>createAdmin\<close> returns that error after two calls, and \<open>IssueToken\<close>
  is not among them.
\<close>

theorem createAdmin_lookup_error_counterexample:
  "createAdmin K_sample flaky_deps Background cfg_default (mem_with_admin, []) =
     (Inl (ExtErr ''entity already exists''),
      (mem_with_admin\<lparr>clock := 12\<rparr>,
       [CallRetrieveByIdentity ''admin@example.com'',
        CallSave (admin_client K_sample cfg_default 10 11)]))
   \<and> CallIssueToken ''admin@example.com'' ''12345678'' []
       \<notin> set (snd (snd (createAdmin K_sample flaky_deps Background cfg_default
                          (mem_with_admin, []))))"
  by (simp add: createAdmin_def call_defs admin_client_def mem_eval mem_with_admin_def)

end
